theory Spec2Isabelle
  imports Main "HOL-Library.Word" "HOL-Library.Monad_Syntax"
begin

unbundle bit_operations_syntax

section \<open>The key matrix\<close>

text \<open>
  \<^verbatim>\<open>static uint8_t matrix[MATRIX_ROWS];\<close>: one byte per row, one bit per column. The
  array is a list of bytes; every index the decoder computes is \<open>ROW(code)\<close> of a byte,
  hence at most 31.
\<close>

type_synonym matrix = "8 word list"

text \<open>
  Modelled from the spec: \<open>MATRIX_ROWS\<close> is defined in a configuration header that is not
  among the sources. The specification fixes the matrix at 32 rows of 8 columns; the
  comment above the array ("256(32x8)cell matrix") and the 32 initialised rows of
  \<open>unimap_cs2\<close> agree.
\<close>

definition MATRIX_ROWS :: nat where
  "MATRIX_ROWS = 32"

text \<open>\<^verbatim>\<open>#define ROW(code) (code>>3)\<close> and \<^verbatim>\<open>#define COL(code) (code&0x07)\<close>.\<close>

definition ROW :: "8 word \<Rightarrow> nat" where
  "ROW code = unat (drop_bit 3 code)"

definition COL :: "8 word \<Rightarrow> nat" where
  "COL code = unat (code AND 0x07)"

text \<open>
  \<^verbatim>\<open>return (matrix[row] & (1<<col));\<close> converted to \<open>bool\<close>: true when the masked byte is
  not zero. For a column above 7 the mask has no bit inside the byte, in C as here.
\<close>

definition matrix_is_on :: "matrix \<Rightarrow> nat \<Rightarrow> nat \<Rightarrow> bool" where
  "matrix_is_on m row col = (((m ! row) AND push_bit col 1) \<noteq> 0)"

definition matrix_get_row :: "matrix \<Rightarrow> nat \<Rightarrow> 8 word" where
  "matrix_get_row m row = m ! row"

definition matrix_make :: "matrix \<Rightarrow> 8 word \<Rightarrow> matrix" where
  "matrix_make m code =
     (if \<not> matrix_is_on m (ROW code) (COL code)
      then m[ROW code := (m ! ROW code) OR push_bit (COL code) 1]
      else m)"

definition matrix_break :: "matrix \<Rightarrow> 8 word \<Rightarrow> matrix" where
  "matrix_break m code =
     (if matrix_is_on m (ROW code) (COL code)
      then m[ROW code := (m ! ROW code) AND NOT (push_bit (COL code) 1)]
      else m)"

text \<open>\<^verbatim>\<open>for (uint8_t i=0; i < MATRIX_ROWS; i++) matrix[i] = 0x00;\<close>\<close>

definition matrix_clear :: "matrix \<Rightarrow> matrix" where
  "matrix_clear m = fold (\<lambda>i a. a[i := 0]) [0..<MATRIX_ROWS] m"

section \<open>The Scan Code Set 2 decoder\<close>

text \<open>The reading states of \<open>process_cs2\<close>, in the order of the source's enum.\<close>

datatype cs2 =
    INIT
  | F0
  | E0
  | E0_F0
  | E1
  | E1_14
  | E1_14_77
  | E1_14_77_E1
  | E1_14_77_E1_F0
  | E1_14_77_E1_F0_14
  | E1_14_77_E1_F0_14_F0
  | E0_7E
  | E0_7E_E0
  | E0_7E_E0_F0

text \<open>
  What the decoder does besides updating the matrix is kept as a list of the calls it
  makes, oldest first: the matrix primitives, the host's \<open>clear_keyboard\<close> and the
  diagnostic \<open>xprintf\<close>, whose message is kept without its final newline.
\<close>

datatype call =
    MatrixMake "8 word"
  | MatrixBreak "8 word"
  | MatrixClear
  | ClearKeyboard
  | Xprintf string

record decoder =
  matrix :: matrix
  state :: cs2
  calls :: "call list"

text \<open>Matrix positions of the exceptional keys.\<close>

definition F7 :: "8 word" where
  "F7 = 0x83"

definition PRINT_SCREEN :: "8 word" where
  "PRINT_SCREEN = 0xFC"

definition PAUSE :: "8 word" where
  "PAUSE = 0xFE"

definition emit_make :: "8 word \<Rightarrow> decoder \<Rightarrow> decoder" where
  "emit_make code d =
     d\<lparr>matrix := matrix_make (matrix d) code, calls := calls d @ [MatrixMake code]\<rparr>"

definition emit_break :: "8 word \<Rightarrow> decoder \<Rightarrow> decoder" where
  "emit_break code d =
     d\<lparr>matrix := matrix_break (matrix d) code, calls := calls d @ [MatrixBreak code]\<rparr>"

text \<open>
  The three statements every error branch of the decoder runs:
  \<^verbatim>\<open>matrix_clear(); clear_keyboard(); xprintf(msg);\<close>
\<close>

definition clear_all :: "string \<Rightarrow> decoder \<Rightarrow> decoder" where
  "clear_all msg d =
     d\<lparr>matrix := matrix_clear (matrix d),
       calls := calls d @ [MatrixClear, ClearKeyboard, Xprintf msg]\<rparr>"

text \<open>
  The 'pseudo break code' hack at the head of \<open>process_cs2\<close>:
  \<^verbatim>\<open>if (matrix_is_on(ROW(PAUSE), COL(PAUSE))) { matrix_break(PAUSE); }\<close>
\<close>

definition pseudo_break :: "decoder \<Rightarrow> decoder" where
  "pseudo_break d =
     (if matrix_is_on (matrix d) (ROW PAUSE) (COL PAUSE) then emit_break PAUSE d else d)"

text \<open>
  \<open>process_cs2\<close>. The first argument is the value \<open>ibmpc_host_recv()\<close> returns at this
  call, stored as the source stores it, in a \<open>uint16_t\<close>: a byte, or \<open>-1\<close> when no byte is
  waiting. The target is an AVR, where \<open>int\<close> has 16 bits, so \<^verbatim>\<open>code == -1\<close> compares two
  16-bit values and holds exactly for 0xFFFF. The result is the returned \<open>int8_t\<close> and the
  decoder afterwards. \<open>matrix_make\<close> and \<open>matrix_break\<close> take a \<open>uint8_t\<close>, hence the
  \<open>ucast\<close> of their arguments.
\<close>

definition process_cs2 :: "16 word \<Rightarrow> decoder \<Rightarrow> 8 word \<times> decoder" where
  "process_cs2 code d0 =
     (let d = pseudo_break d0 in
      if code = - 1 then (0, d)
      else case state d of
        INIT \<Rightarrow>
          if code = 0xE0 then (0, d\<lparr>state := E0\<rparr>)
          else if code = 0xF0 then (0, d\<lparr>state := F0\<rparr>)
          else if code = 0xE1 then (0, d\<lparr>state := E1\<rparr>)
          else if code = 0x83 then (0, (emit_make F7 d)\<lparr>state := INIT\<rparr>)
          else if code = 0x84 then (0, (emit_make PRINT_SCREEN d)\<lparr>state := INIT\<rparr>)
          else if code = 0x00 then (0, (clear_all ''!CS2_OVERRUN!'' d)\<lparr>state := INIT\<rparr>)
          else if code = 0xAA \<or> code = 0xFC then (- 1, d\<lparr>state := INIT\<rparr>)
          else if code < 0x80 then (0, (emit_make (ucast code) d)\<lparr>state := INIT\<rparr>)
          else (0, (clear_all ''!CS2_INIT!'' d)\<lparr>state := INIT\<rparr>)
      | E0 \<Rightarrow>
          if code = 0x12 \<or> code = 0x59 then (0, d\<lparr>state := INIT\<rparr>)
          else if code = 0x7E then (0, d\<lparr>state := E0_7E\<rparr>)
          else if code = 0xF0 then (0, d\<lparr>state := E0_F0\<rparr>)
          else if code < 0x80 then (0, (emit_make (ucast (code OR 0x80)) d)\<lparr>state := INIT\<rparr>)
          else (0, (clear_all ''!CS2_E0!'' d)\<lparr>state := INIT\<rparr>)
      | F0 \<Rightarrow>
          if code = 0x83 then (0, (emit_break F7 d)\<lparr>state := INIT\<rparr>)
          else if code = 0x84 then (0, (emit_break PRINT_SCREEN d)\<lparr>state := INIT\<rparr>)
          else if code < 0x80 then (0, (emit_break (ucast code) d)\<lparr>state := INIT\<rparr>)
          else (0, (clear_all ''!CS2_F0!'' d)\<lparr>state := INIT\<rparr>)
      | E0_F0 \<Rightarrow>
          if code = 0x12 \<or> code = 0x59 then (0, d\<lparr>state := INIT\<rparr>)
          else if code < 0x80 then (0, (emit_break (ucast (code OR 0x80)) d)\<lparr>state := INIT\<rparr>)
          else (0, (clear_all ''!CS2_E0_F0!'' d)\<lparr>state := INIT\<rparr>)
      | E1 \<Rightarrow>
          if code = 0x14 then (0, d\<lparr>state := E1_14\<rparr>)
          else (0, d\<lparr>state := INIT\<rparr>)
      | E1_14 \<Rightarrow>
          if code = 0x77 then (0, d\<lparr>state := E1_14_77\<rparr>)
          else (0, d\<lparr>state := INIT\<rparr>)
      | E1_14_77 \<Rightarrow>
          if code = 0xE1 then (0, d\<lparr>state := E1_14_77_E1\<rparr>)
          else (0, d\<lparr>state := INIT\<rparr>)
      | E1_14_77_E1 \<Rightarrow>
          if code = 0xF0 then (0, d\<lparr>state := E1_14_77_E1_F0\<rparr>)
          else (0, d\<lparr>state := INIT\<rparr>)
      | E1_14_77_E1_F0 \<Rightarrow>
          if code = 0x14 then (0, d\<lparr>state := E1_14_77_E1_F0_14\<rparr>)
          else (0, d\<lparr>state := INIT\<rparr>)
      | E1_14_77_E1_F0_14 \<Rightarrow>
          if code = 0xF0 then (0, d\<lparr>state := E1_14_77_E1_F0_14_F0\<rparr>)
          else (0, d\<lparr>state := INIT\<rparr>)
      | E1_14_77_E1_F0_14_F0 \<Rightarrow>
          if code = 0x77 then (0, (emit_make PAUSE d)\<lparr>state := INIT\<rparr>)
          else (0, d\<lparr>state := INIT\<rparr>)
      | E0_7E \<Rightarrow>
          if code = 0xE0 then (0, d\<lparr>state := E0_7E_E0\<rparr>)
          else (0, d\<lparr>state := INIT\<rparr>)
      | E0_7E_E0 \<Rightarrow>
          if code = 0xF0 then (0, d\<lparr>state := E0_7E_E0_F0\<rparr>)
          else (0, d\<lparr>state := INIT\<rparr>)
      | E0_7E_E0_F0 \<Rightarrow>
          (0, (if code = 0x7E then emit_make PAUSE d else d)\<lparr>state := INIT\<rparr>))"

text \<open>
  Feeding a sequence of received values, one call of \<open>process_cs2\<close> each; the value each
  call returns is dropped, as \<open>matrix_scan\<close> drops it.
\<close>

fun feed :: "16 word list \<Rightarrow> decoder \<Rightarrow> decoder" where
  "feed [] d = d"
| "feed (c # cs) d = feed cs (snd (process_cs2 c d))"

section \<open>Keyboard identification\<close>

text \<open>
  The transport port and the timer (\<open>ibmpc_host_send\<close>, \<open>ibmpc_host_recv\<close>,
  \<open>timer_elapsed\<close>) are external collaborators whose code is not among the sources. What
  they return is a parameter: a script of the successive results of each of the three,
  consumed one per call. \<open>sent\<close> records the bytes handed to \<open>ibmpc_host_send\<close>, oldest first.
\<close>

record port =
  send_rets :: "16 word list"
  recvs :: "16 word list"
  elapsed :: "16 word list"
  sent :: "8 word list"

text \<open>
  Modelled from the spec: \<open>ibmpc_host_send\<close> is a function of the transport, which is not
  among the sources. The specification gives its shape only: it hands a byte to the device
  and returns the device's reply or a failure (\<open>-1\<close>). Here it records the byte and returns
  the next value of the script; on an exhausted script it has no result.
\<close>

definition ibmpc_host_send :: "port \<Rightarrow> 8 word \<Rightarrow> (16 word \<times> port) option" where
  "ibmpc_host_send p b =
     (case send_rets p of
        [] \<Rightarrow> None
      | r # rs \<Rightarrow> Some (r, p\<lparr>send_rets := rs, sent := sent p @ [b]\<rparr>))"

text \<open>
  \<open>read_wait\<close>:
  \<^verbatim>\<open>while ((code = ibmpc_host_recv()) == -1 && timer_elapsed(start) < wait_ms);\<close>
  The loop polls the receive script; the timer is read only after an empty poll, as the
  short-circuit \<open>&&\<close> has it. \<open>code\<close> is an \<open>int16_t\<close>, the two times are \<open>uint16_t\<close>. The
  loop has no result when a script runs out before a byte arrives or the bound is reached.
\<close>

fun read_wait_loop ::
  "16 word \<Rightarrow> 16 word list \<Rightarrow> 16 word list \<Rightarrow> (16 word \<times> 16 word list \<times> 16 word list) option"
where
  "read_wait_loop wait_ms [] ts = None"
| "read_wait_loop wait_ms (code # cs) ts =
     (if code = - 1
      then (case ts of
              [] \<Rightarrow> None
            | t # ts' \<Rightarrow> if t < wait_ms then read_wait_loop wait_ms cs ts' else Some (code, cs, ts'))
      else Some (code, cs, ts))"

definition read_wait :: "port \<Rightarrow> 16 word \<Rightarrow> (16 word \<times> port) option" where
  "read_wait p wait_ms =
     map_option (\<lambda>(code, cs, ts). (code, p\<lparr>recvs := cs, elapsed := ts\<rparr>))
       (read_wait_loop wait_ms (recvs p) (elapsed p))"

text \<open>
  \<open>read_keyboard_id\<close>. \<open>id\<close> is a \<open>uint16_t\<close>, \<open>code\<close> an \<open>int16_t\<close>; the shift
  \<^verbatim>\<open>(code & 0xFF)<<8\<close> is taken in 16 bits, the width of \<open>int\<close> on the target. The three
  early returns leave the function before the byte 0xF4 is sent.
\<close>

definition read_keyboard_id :: "port \<Rightarrow> (16 word \<times> port) option" where
  "read_keyboard_id p0 =
     do {
       (code, p1) \<leftarrow> ibmpc_host_send p0 0xF5;
       (code, p2) \<leftarrow> ibmpc_host_send p1 0xF2;
       if code = - 1 then Some (0xFFFF, p2)
       else if code \<noteq> 0xFA then Some (0xFFFE, p2)
       else do {
         (code, p3) \<leftarrow> read_wait p2 1000;
         if code = - 1 then Some (0x0000, p3)
         else do {
           let id = push_bit 8 (code AND 0xFF);
           (code, p4) \<leftarrow> read_wait p3 1000;
           let id = id OR (code AND 0xFF);
           (code, p5) \<leftarrow> ibmpc_host_send p4 0xF4;
           Some (id, p5)
         }
       }
     }"

datatype kind = NONE | PC_XT | PC_AT | PC_TERMINAL | OTHER

datatype protocol = IBMPC_PROTOCOL_AT | IBMPC_PROTOCOL_XT

datatype lifecycle = LC_INIT | WAIT_STARTUP | READ_ID | LED_SET | LOOP | LC_END

datatype print = PrintErr "8 word" | PrintID "16 word" | Print string

text \<open>The chain of comparisons on \<open>keyboard_id\<close> in the \<open>READ_ID\<close> case of \<open>matrix_scan\<close>.\<close>

definition kind_of_id :: "16 word \<Rightarrow> kind" where
  "kind_of_id kid =
     (if 0xAB00 = (kid AND 0xFF00) then PC_AT
      else if 0xBF00 = (kid AND 0xFF00) then PC_TERMINAL
      else if 0x0000 = kid then PC_AT
      else if 0xFFFF = kid then PC_XT
      else if 0xFFFE = kid then PC_AT
      else if 0x00FF = kid then NONE
      else PC_AT)"

text \<open>The chain on \<open>keyboard_kind\<close> that follows it, under the comment "protocol".\<close>

definition protocol_of_kind :: "kind \<Rightarrow> protocol" where
  "protocol_of_kind k =
     (if k = PC_XT then IBMPC_PROTOCOL_XT
      else if k = PC_AT then IBMPC_PROTOCOL_AT
      else if k = PC_TERMINAL then IBMPC_PROTOCOL_AT
      else IBMPC_PROTOCOL_AT)"

definition kind_message :: "kind \<Rightarrow> string" where
  "kind_message k =
     (if k = PC_XT then ''kbd: XT''
      else if k = PC_AT then ''kbd: AT''
      else if k = PC_TERMINAL then ''kbd: Terminal''
      else ''kbd: Unknown'')"

record keyboard =
  port :: port
  ibmpc_error :: "8 word"
  ibmpc_protocol :: protocol
  keyboard_kind :: kind
  keyboard_id :: "16 word"
  scan_state :: lifecycle
  prints :: "print list"

text \<open>
  The \<open>READ_ID\<close> case of the switch in \<open>matrix_scan\<close>, from \<^verbatim>\<open>case READ_ID:\<close> to its
  \<open>break\<close>; the error check that precedes the switch changes the state only when it is
  \<open>LOOP\<close> and is not part of the case. \<open>ibmpc_error\<close> is a variable of the transport; \<open>err\<close>
  is the value the transport has left in it when \<open>read_keyboard_id\<close> returns. A value other
  than zero is printed and the flag is reset to \<open>IBMPC_ERR_NONE\<close>, a constant of an absent
  header, taken to be zero, the value that the test \<^verbatim>\<open>if (ibmpc_error)\<close> reads as no error.
  The messages printed are kept without their final newline.
\<close>

definition matrix_scan_READ_ID :: "8 word \<Rightarrow> keyboard \<Rightarrow> keyboard option" where
  "matrix_scan_READ_ID err k0 =
     do {
       (kid, p) \<leftarrow> read_keyboard_id (port k0);
       let k = k0\<lparr>port := p, keyboard_id := kid, ibmpc_error := err\<rparr>;
       let k = (if ibmpc_error k \<noteq> 0
                then k\<lparr>prints := prints k @ [PrintErr (ibmpc_error k)], ibmpc_error := 0\<rparr>
                else k);
       let k = k\<lparr>prints := prints k @ [PrintID (keyboard_id k)]\<rparr>;
       let k = k\<lparr>keyboard_kind := kind_of_id (keyboard_id k),
                  prints := prints k @
                    (if kind_of_id (keyboard_id k) = NONE
                     then [Print ''Mouse: not supported''] else [])\<rparr>;
       let k = k\<lparr>ibmpc_protocol := protocol_of_kind (keyboard_kind k),
                  prints := prints k @ [Print (kind_message (keyboard_kind k))]\<rparr>;
       Some (k\<lparr>scan_state := LED_SET\<rparr>)
     }"

section \<open>The action resolver\<close>

text \<open>\<open>keypos_t\<close>: a column and a row, one byte each.\<close>

record keypos =
  col :: "8 word"
  row :: "8 word"

text \<open>
  The tables in program memory. The entries of \<open>unimap_cs1\<close>, \<open>unimap_cs2\<close> and
  \<open>unimap_cs3\<close> are the constants \<open>UNIMAP_...\<close> of a header that is not among the sources,
  \<open>actionmaps\<close> is declared \<open>extern\<close>, and \<open>UNIMAP_NO\<close> and \<open>ACTION_NO\<close> come from headers
  too; all of them are parameters here. A table is the function from its indices to the
  value \<open>pgm_read_byte\<close> or \<open>pgm_read_word\<close> reads there; an \<open>action_t\<close> is its 16-bit code.
\<close>

record progmem =
  unimap_cs1 :: "nat \<Rightarrow> nat \<Rightarrow> 8 word"
  unimap_cs2 :: "nat \<Rightarrow> nat \<Rightarrow> 8 word"
  unimap_cs3 :: "nat \<Rightarrow> nat \<Rightarrow> 8 word"
  actionmaps :: "nat \<Rightarrow> nat \<Rightarrow> nat \<Rightarrow> 16 word"
  UNIMAP_NO :: "8 word"
  ACTION_NO :: "16 word"

text \<open>
  \<open>action_for_key\<close>; the global \<open>keyboard_kind\<close> it switches on is its second argument.
  \<open>None\<close> stands for the \<open>default\<close> branch of the switch, which returns at once.
\<close>

definition action_for_key :: "progmem \<Rightarrow> kind \<Rightarrow> 8 word \<Rightarrow> keypos \<Rightarrow> 16 word" where
  "action_for_key t kk layer key =
     (case (case kk of
              PC_XT \<Rightarrow> Some (unimap_cs1 t (unat (row key)) (unat (col key)))
            | PC_AT \<Rightarrow> Some (unimap_cs2 t (unat (row key)) (unat (col key)))
            | PC_TERMINAL \<Rightarrow> Some (unimap_cs3 t (unat (row key)) (unat (col key)))
            | _ \<Rightarrow> None) of
        None \<Rightarrow> ACTION_NO t
      | Some unimap_pos \<Rightarrow>
          if unimap_pos = UNIMAP_NO t then ACTION_NO t
          else actionmaps t (unat layer)
                 (unat (drop_bit 4 (unimap_pos AND 0x70))) (unat (unimap_pos AND 0x0f)))"

section \<open>The specification's reading of the decoder\<close>

text \<open>
  The bytes the specification's transition tables expect in each state: every row of a
  table other than "other", and for the two Pause sequences the next byte of the sequence.
\<close>

fun spec_expected :: "cs2 \<Rightarrow> 16 word \<Rightarrow> bool" where
  "spec_expected INIT c =
     (c = 0xE0 \<or> c = 0xF0 \<or> c = 0xE1 \<or> c = 0x83 \<or> c = 0x84 \<or> c = 0x00 \<or> c = 0xAA \<or> c = 0xFC
      \<or> c < 0x80)"
| "spec_expected E0 c = (c = 0x12 \<or> c = 0x59 \<or> c = 0x7E \<or> c = 0xF0 \<or> c < 0x80)"
| "spec_expected F0 c = (c = 0x83 \<or> c = 0x84 \<or> c < 0x80)"
| "spec_expected E0_F0 c = (c = 0x12 \<or> c = 0x59 \<or> c < 0x80)"
| "spec_expected E1 c = (c = 0x14)"
| "spec_expected E1_14 c = (c = 0x77)"
| "spec_expected E1_14_77 c = (c = 0xE1)"
| "spec_expected E1_14_77_E1 c = (c = 0xF0)"
| "spec_expected E1_14_77_E1_F0 c = (c = 0x14)"
| "spec_expected E1_14_77_E1_F0_14 c = (c = 0xF0)"
| "spec_expected E1_14_77_E1_F0_14_F0 c = (c = 0x77)"
| "spec_expected E0_7E c = (c = 0xE0)"
| "spec_expected E0_7E_E0 c = (c = 0xF0)"
| "spec_expected E0_7E_E0_F0 c = (c = 0x7E)"

text \<open>The states of the two Pause sequences.\<close>

definition pause_state :: "cs2 \<Rightarrow> bool" where
  "pause_state s = (s \<notin> {INIT, F0, E0, E0_F0})"

text \<open>A byte completes a Pause sequence when it is the last byte of one of the two.\<close>

definition completes_pause :: "cs2 \<Rightarrow> 16 word \<Rightarrow> bool" where
  "completes_pause s c = (s = E1_14_77_E1_F0_14_F0 \<and> c = 0x77 \<or> s = E0_7E_E0_F0 \<and> c = 0x7E)"

text \<open>
  A universal key position, as the specification's data model has it: one byte whose high
  nibble addresses one of 8 rows and whose low nibble one of 16 columns, or the sentinel.
  A position other than the sentinel is therefore below 0x80.
\<close>

definition spec_ukp :: "progmem \<Rightarrow> 8 word \<Rightarrow> bool" where
  "spec_ukp t u = (u = UNIMAP_NO t \<or> u < 0x80)"

text \<open>
  Steps 2 to 4 of the specification's action resolver: the sentinel resolves to no action,
  any other position to the entry of the layered action table at
  \<open>(layer, ukp >> 4, ukp & 0x0F)\<close>.
\<close>

definition spec_resolve :: "progmem \<Rightarrow> 8 word \<Rightarrow> 8 word \<Rightarrow> 16 word" where
  "spec_resolve t layer ukp =
     (if ukp = UNIMAP_NO t then ACTION_NO t
      else actionmaps t (unat layer) (unat (drop_bit 4 ukp)) (unat (ukp AND 0x0F)))"

text \<open>The four shadow-shift sequences.\<close>

definition shadow_shifts :: "16 word list set" where
  "shadow_shifts = {[0xE0, 0x12], [0xE0, 0x59], [0xE0, 0xF0, 0x12], [0xE0, 0xF0, 0x59]}"

section \<open>Properties of the matrix and the decoder\<close>

text \<open>
  Every row index the macros compute lies inside the array, and every column inside the
  byte.
\<close>

lemma ROW_less: "ROW c < MATRIX_ROWS"
proof -
  have "unat c < 256"
    using unsigned_less [of c, where ?'a = nat] by simp
  then show ?thesis
    by (simp add: ROW_def MATRIX_ROWS_def drop_bit_eq_div unat_div)
qed

lemma COL_less: "COL c < 8"
proof -
  have "c AND 7 \<le> 7"
    by (rule word_and_le1)
  then have "unat (c AND 7) \<le> 7"
    by (simp add: word_le_nat_alt)
  then show ?thesis
    by (simp add: COL_def)
qed

lemma length_matrix_make [simp]: "length (matrix_make m c) = length m"
  by (simp add: matrix_make_def)

lemma length_matrix_break [simp]: "length (matrix_break m c) = length m"
  by (simp add: matrix_break_def)

text \<open>
  The clearing loop zeroes exactly the rows below its bound, so on a matrix of
  \<open>MATRIX_ROWS\<close> rows it leaves the all-zero matrix.
\<close>

lemma fold_zero_length: "length (fold (\<lambda>i a. a[i := (0 :: 8 word)]) is m) = length m"
  by (induction "is" arbitrary: m) simp_all

lemma fold_zero_nth:
  "j < length m \<Longrightarrow> fold (\<lambda>i a. a[i := (0 :: 8 word)]) [0..<n] m ! j = (if j < n then 0 else m ! j)"
  by (induction n) (auto simp: fold_zero_length nth_list_update less_Suc_eq)

lemma matrix_clear_eq: "length m = MATRIX_ROWS \<Longrightarrow> matrix_clear m = replicate MATRIX_ROWS 0"
  by (rule nth_equalityI) (simp_all add: matrix_clear_def fold_zero_length fold_zero_nth)

text \<open>
  \<open>matrix_is_on\<close> reads one bit of one row.
\<close>

lemma bit_mask_and: "((x :: 8 word) AND push_bit n 1 \<noteq> 0) = bit x n"
  by (simp only: bit_iff_and_push_bit_not_eq_0)

lemma matrix_is_on_bit: "matrix_is_on m r c = bit (m ! r) c"
  unfolding matrix_is_on_def by (rule bit_mask_and)

lemma make_break_clear:
  assumes "ROW c < length m" "\<not> matrix_is_on m (ROW c) (COL c)"
  shows "matrix_break (matrix_make m c) c = m"
proof -
  have "((m ! ROW c) OR push_bit (COL c) 1) AND NOT (push_bit (COL c) 1) = m ! ROW c"
    using assms(2) by (intro bit_word_eqI) (auto simp: matrix_is_on_bit bit_simps)
  moreover have "bit ((m ! ROW c) OR push_bit (COL c) (1 :: 8 word)) (COL c)"
    using COL_less [of c] by (simp add: bit_simps)
  ultimately show ?thesis
    using assms by (simp add: matrix_make_def matrix_break_def matrix_is_on_bit)
qed


lemma make_on_noop: "matrix_is_on m (ROW c) (COL c) \<Longrightarrow> matrix_make m c = m"
  by (simp add: matrix_make_def)

subsection \<open>Make followed by break\<close>

text \<open>
  Claim C7, as amended. For every matrix of \<open>MATRIX_ROWS\<close> rows and every code \<open>c\<close>: when the
  bit of \<open>c\<close> is clear beforehand, \<open>matrix_make(c)\<close> followed by \<open>matrix_break(c)\<close> restores the
  matrix exactly. When the bit is already set, \<open>matrix_make(c)\<close> changes nothing and
  \<open>matrix_break(c)\<close> clears the bit, so the result is the matrix with the bit of \<open>c\<close> cleared
  and differs from the matrix before.
\<close>

theorem make_then_break:
  assumes "length m = MATRIX_ROWS"
  shows "(\<not> matrix_is_on m (ROW c) (COL c) \<longrightarrow> matrix_break (matrix_make m c) c = m) \<and>
         (matrix_is_on m (ROW c) (COL c) \<longrightarrow>
            matrix_make m c = m \<and>
            matrix_break (matrix_make m c) c = matrix_break m c \<and> matrix_break m c \<noteq> m)"
proof -
  have r: "ROW c < length m"
    using assms ROW_less [of c] by simp
  have "matrix_break m c \<noteq> m" if on: "matrix_is_on m (ROW c) (COL c)"
  proof
    assume "matrix_break m c = m"
    then have "matrix_break m c ! ROW c = m ! ROW c" by simp
    then have "bit ((m ! ROW c) AND NOT (push_bit (COL c) 1)) (COL c) = bit (m ! ROW c) (COL c)"
      using on r by (simp add: matrix_break_def)
    then show False
      using on by (simp add: matrix_is_on_bit bit_simps)
  qed
  then show ?thesis
    using r by (simp add: make_break_clear make_on_noop)
qed

text \<open>
  The theorem at code 0x1C, once on the empty matrix and once with the bit of 0x1C (row 3,
  column 4) set beforehand.
\<close>

theorem make_then_break_witness:
  "matrix_break (matrix_make (replicate 32 0) 0x1C) 0x1C = replicate 32 0 \<and>
   matrix_make ((replicate 32 0)[3 := 0x10]) 0x1C = (replicate 32 0)[3 := 0x10] \<and>
   matrix_break (matrix_make ((replicate 32 0)[3 := 0x10]) 0x1C) 0x1C
     = matrix_break ((replicate 32 0)[3 := 0x10]) 0x1C"
  using make_then_break [of "replicate 32 0" "0x1C"]
        make_then_break [of "(replicate 32 0)[3 := 0x10]" "0x1C"]
  by (simp add: MATRIX_ROWS_def matrix_is_on_def ROW_def COL_def)

text \<open>
  Claim C7 as stated fails when the bit is set beforehand: with bit 4 of row 3 set, make
  and then break of code 0x1C do not give the matrix back.
\<close>

theorem make_then_break_set_counterexample:
  "matrix_break (matrix_make ((replicate 32 0)[3 := 0x10]) 0x1C) 0x1C \<noteq> (replicate 32 0)[3 := 0x10]"
  by code_simp

subsection \<open>The frame of make and break\<close>

text \<open>
  Setting or clearing one bit of a byte leaves its other bits alone.
\<close>

lemma bit_set_other: "b \<noteq> n \<Longrightarrow> bit ((x :: 8 word) OR push_bit n 1) b = bit x b"
  by (auto simp: bit_or_iff bit_exp_iff)

lemma bit_clear_other: "b \<noteq> n \<Longrightarrow> bit ((x :: 8 word) AND NOT (push_bit n 1)) b = bit x b"
  by (auto simp: bit_and_iff bit_not_iff bit_exp_iff dest: bit_imp_le_length)

text \<open>
  Claim C10. For every matrix and every code \<open>c\<close>, \<open>matrix_make(c)\<close> and \<open>matrix_break(c)\<close>
  change at most bit \<open>c & 7\<close> of row \<open>c >> 3\<close>: every bit at another position keeps its
  value, every other row is unchanged as a whole, and the number of rows stays the same.
\<close>

theorem make_break_frame:
  assumes "r < length m" "r \<noteq> ROW c \<or> b \<noteq> COL c"
  shows "bit (matrix_make m c ! r) b = bit (m ! r) b \<and>
         bit (matrix_break m c ! r) b = bit (m ! r) b \<and>
         (r \<noteq> ROW c \<longrightarrow> matrix_make m c ! r = m ! r \<and> matrix_break m c ! r = m ! r) \<and>
         length (matrix_make m c) = length m \<and> length (matrix_break m c) = length m"
proof (cases "r = ROW c")
  case True
  with assms have "b \<noteq> COL c" by simp
  then show ?thesis
    using assms(1) True
    by (simp add: matrix_make_def matrix_break_def bit_set_other bit_clear_other
          del: push_bit_of_1)
next
  case False
  then show ?thesis
    by (simp add: matrix_make_def matrix_break_def)
qed

text \<open>
  The theorem at code 0x1C (row 3, column 4): bit 5 of row 3 survives a make and a break,
  and row 2 is left as it was.
\<close>

theorem make_break_frame_witness:
  "bit (matrix_make ((replicate 32 0)[3 := 0x20]) 0x1C ! 3) 5 \<and>
   bit (matrix_break ((replicate 32 0)[3 := 0x30]) 0x1C ! 3) 5 \<and>
   matrix_make ((replicate 32 0)[2 := 0x01]) 0x1C ! 2 = 0x01"
  using make_break_frame [of 3 "(replicate 32 0)[3 := 0x20]" "0x1C" 5]
        make_break_frame [of 3 "(replicate 32 0)[3 := 0x30]" "0x1C" 5]
        make_break_frame [of 2 "(replicate 32 0)[2 := 0x01]" "0x1C" 0]
  by (simp add: ROW_def COL_def)

subsection \<open>The position of Pause\<close>

text \<open>
  A code is determined by its row and its column, so the Pause position (row 0x1F,
  column 6) belongs to the code 0xFE alone.
\<close>

lemma ROW_COL_inj:
  assumes "ROW a = ROW b" "COL a = COL b"
  shows "a = b"
proof (rule bit_word_eqI)
  fix n
  assume "n < LENGTH(8)"
  have d: "drop_bit 3 a = drop_bit 3 b"
    using assms(1) by (metis ROW_def unsigned_word_eqI)
  have t: "take_bit 3 a = take_bit 3 b"
    using assms(2) by (simp add: COL_def take_bit_eq_mask mask_eq_exp_minus_1 word_unat_eq_iff)
  show "bit a n = bit b n"
  proof (cases "n < 3")
    case True
    have "bit (take_bit 3 a) n = bit (take_bit 3 b) n" using t by simp
    with True show ?thesis by (simp add: bit_take_bit_iff)
  next
    case False
    have "bit (drop_bit 3 a) (n - 3) = bit (drop_bit 3 b) (n - 3)" using d by simp
    with False show ?thesis by (simp add: bit_drop_bit_eq)
  qed
qed

lemma pause_position: "ROW c = ROW PAUSE \<and> COL c = COL PAUSE \<longleftrightarrow> c = PAUSE"
  using ROW_COL_inj [of c PAUSE] by auto

text \<open>
  No code the decoder passes to \<open>matrix_make\<close> outside the two Pause sequences is 0xFE: a
  code below 0x80 has bit 7 clear, and a code below 0x80 with bit 7 set by the prefix E0
  is 0xFE only for the byte 0x7E, which the state E0 routes to the Control'd Pause
  sequence.
\<close>

lemma low_bits_fixed:
  fixes code :: "16 word"
  assumes "code < 2 ^ k"
  shows "bit code n \<longleftrightarrow> n < k \<and> bit code n"
proof -
  have "take_bit k code = code"
    using assms by (simp add: take_bit_eq_mask less_mask_eq)
  then show ?thesis
    by (metis bit_take_bit_iff)
qed

lemma ucast_low_not_pause: "code < 0x80 \<Longrightarrow> (ucast (code :: 16 word) :: 8 word) \<noteq> PAUSE"
proof
  assume lt: "code < 0x80" and eq: "(ucast code :: 8 word) = PAUSE"
  have "\<not> bit code 7"
    using low_bits_fixed [of code 7 7] lt by simp
  then have "\<not> bit (ucast code :: 8 word) 7" by (simp add: bit_ucast_iff)
  moreover have "bit PAUSE 7" by (simp add: PAUSE_def)
  ultimately show False using eq by simp
qed

lemma low_of_or:
  fixes code :: "16 word" and v :: "8 word"
  assumes "code < 2 ^ k" "k < 8" "(ucast (code OR 2 ^ k) :: 8 word) = v"
  shows "code = take_bit k (ucast v)"
proof (rule bit_word_eqI)
  fix n
  assume "n < LENGTH(16)"
  have a: "bit code n \<longleftrightarrow> n < k \<and> bit code n"
    using assms(1) by (rule low_bits_fixed)
  have b: "bit v n \<longleftrightarrow> n < 8 \<and> (bit code n \<or> n = k)"
    using assms(2) by (auto simp: assms(3) [symmetric] bit_ucast_iff bit_or_iff bit_exp_iff)
  show "bit code n = bit (take_bit k (ucast v :: 16 word)) n"
    using a b assms(2) by (auto simp: bit_take_bit_iff bit_ucast_iff)
qed

lemma ucast_e0_not_pause:
  assumes "code < 0x80" "code \<noteq> 0x7E"
  shows "(ucast ((code :: 16 word) OR 0x80) :: 8 word) \<noteq> PAUSE"
proof
  assume eq: "(ucast (code OR 0x80) :: 8 word) = PAUSE"
  have "code = take_bit 7 (ucast PAUSE)"
    using assms(1) eq by (intro low_of_or) simp_all
  then have "code = 0x7E" by (simp add: PAUSE_def)
  with assms(2) show False by simp
qed

subsection \<open>The pseudo break of Pause\<close>

text \<open>
  How the three matrix primitives act on a bit that is off.
\<close>

lemma break_keeps_off:
  "\<not> matrix_is_on m r b \<Longrightarrow> r < length m \<Longrightarrow> \<not> matrix_is_on (matrix_break m c) r b"
  by (cases "r = ROW c") (auto simp: matrix_break_def matrix_is_on_bit bit_and_iff)

lemma break_turns_off:
  "ROW c < length m \<Longrightarrow> \<not> matrix_is_on (matrix_break m c) (ROW c) (COL c)"
  by (auto simp: matrix_break_def matrix_is_on_bit bit_and_iff bit_not_iff bit_exp_iff)

lemma make_keeps_off:
  "\<not> matrix_is_on m r b \<Longrightarrow> r < length m \<Longrightarrow> r \<noteq> ROW c \<or> b \<noteq> COL c
     \<Longrightarrow> \<not> matrix_is_on (matrix_make m c) r b"
  by (cases "r = ROW c") (auto simp: matrix_make_def matrix_is_on_bit bit_or_iff bit_exp_iff)

lemma clear_is_off:
  "length m = MATRIX_ROWS \<Longrightarrow> r < MATRIX_ROWS \<Longrightarrow> \<not> matrix_is_on (matrix_clear m) r b"
  by (simp add: matrix_clear_eq matrix_is_on_bit)

lemma ROW_PAUSE_less: "ROW PAUSE < MATRIX_ROWS"
  by (rule ROW_less)

lemma make_keeps_pause_off:
  assumes "\<not> matrix_is_on m (ROW PAUSE) (COL PAUSE)" "length m = MATRIX_ROWS" "c \<noteq> PAUSE"
  shows "\<not> matrix_is_on (matrix_make m c) (ROW PAUSE) (COL PAUSE)"
proof -
  have "ROW PAUSE \<noteq> ROW c \<or> COL PAUSE \<noteq> COL c"
    using assms(3) pause_position [of c] by auto
  with assms(1,2) show ?thesis
    using ROW_PAUSE_less by (intro make_keeps_off) simp_all
qed

text \<open>
  The pseudo break changes at most the Pause bit, which is off afterwards.
\<close>

lemma state_pseudo_break [simp]: "state (pseudo_break d) = state d"
  by (simp add: pseudo_break_def emit_break_def)

lemma length_pseudo_break [simp]: "length (matrix (pseudo_break d)) = length (matrix d)"
  by (simp add: pseudo_break_def emit_break_def)

lemma pseudo_break_off:
  "length (matrix d) = MATRIX_ROWS
     \<Longrightarrow> \<not> matrix_is_on (matrix (pseudo_break d)) (ROW PAUSE) (COL PAUSE)"
  using ROW_PAUSE_less by (simp add: pseudo_break_def emit_break_def break_turns_off)

lemma pseudo_break_id:
  "\<not> matrix_is_on (matrix d) (ROW PAUSE) (COL PAUSE) \<Longrightarrow> pseudo_break d = d"
  by (simp add: pseudo_break_def)

lemma pseudo_break_matrix: "matrix (pseudo_break d) = matrix_break (matrix d) PAUSE"
  by (simp add: pseudo_break_def emit_break_def matrix_break_def)

lemma F7_not_PAUSE: "F7 \<noteq> PAUSE" and PRINT_SCREEN_not_PAUSE: "PRINT_SCREEN \<noteq> PAUSE"
  by (simp_all add: F7_def PRINT_SCREEN_def PAUSE_def)

subsection \<open>The value returned\<close>

text \<open>
  Claim C3. \<open>process_cs2\<close> returns \<open>-1\<close> if and only if the decoder is in the state \<open>INIT\<close> and
  the value received is 0xAA or 0xFC; in every other case it returns 0, in particular when
  nothing was received and when 0xAA or 0xFC arrives in another state.
\<close>

theorem process_cs2_return:
  "(fst (process_cs2 code d) = - 1 \<longleftrightarrow> state d = INIT \<and> (code = 0xAA \<or> code = 0xFC)) \<and>
   (fst (process_cs2 code d) \<noteq> - 1 \<longrightarrow> fst (process_cs2 code d) = 0) \<and>
   fst (process_cs2 (- 1) d) = 0"
  by (cases "state d") (auto simp: process_cs2_def Let_def)

text \<open>
  The theorem at 0xAA in the state \<open>INIT\<close>, at 0xFC in the state \<open>F0\<close>, and at an empty read.
\<close>

theorem process_cs2_return_witness:
  "fst (process_cs2 0xAA \<lparr>matrix = replicate 32 0, state = INIT, calls = []\<rparr>) = - 1 \<and>
   fst (process_cs2 0xFC \<lparr>matrix = replicate 32 0, state = F0, calls = []\<rparr>) = 0 \<and>
   fst (process_cs2 (- 1) \<lparr>matrix = replicate 32 0, state = INIT, calls = []\<rparr>) = 0"
  using process_cs2_return [of "0xAA" "\<lparr>matrix = replicate 32 0, state = INIT, calls = []\<rparr>"]
        process_cs2_return [of "0xFC" "\<lparr>matrix = replicate 32 0, state = F0, calls = []\<rparr>"]
  by simp

subsection \<open>Pause is released at the next call\<close>

text \<open>
  Claim C4. On every call of \<open>process_cs2\<close>, whatever the matrix of \<open>MATRIX_ROWS\<close> rows and the
  decoder state: the Pause bit (position 0xFE, row 0x1F, column 6) is off after the pseudo
  break that precedes the read; a call that receives nothing returns 0 and leaves exactly
  the decoder after the pseudo break; whatever is received, the call acts as it does on
  the decoder after the pseudo break; and after any call whose byte does not complete one
  of the two Pause sequences the Pause bit is off.
\<close>

theorem pause_pseudo_break:
  assumes "length (matrix d) = MATRIX_ROWS"
  shows "\<not> matrix_is_on (matrix (pseudo_break d)) (ROW PAUSE) (COL PAUSE) \<and>
         process_cs2 (- 1) d = (0, pseudo_break d) \<and>
         process_cs2 code d = process_cs2 code (pseudo_break d) \<and>
         (\<not> completes_pause (state d) code \<longrightarrow>
            \<not> matrix_is_on (matrix (snd (process_cs2 code d))) (ROW PAUSE) (COL PAUSE))"
proof -
  define e where "e = pseudo_break d"
  have off: "\<not> matrix_is_on (matrix e) (ROW PAUSE) (COL PAUSE)"
    and len: "length (matrix e) = MATRIX_ROWS" and st: "state e = state d"
    using assms by (simp_all add: e_def pseudo_break_off)
  have mk: "\<not> matrix_is_on (matrix_make (matrix e) c) (ROW PAUSE) (COL PAUSE)" if "c \<noteq> PAUSE" for c
    using off len that by (rule make_keeps_pause_off)
  have br: "\<not> matrix_is_on (matrix_break (matrix e) c) (ROW PAUSE) (COL PAUSE)" for c
    using off len ROW_PAUSE_less by (intro break_keeps_off) simp_all
  have cl: "\<not> matrix_is_on (matrix_clear (matrix e)) (ROW PAUSE) (COL PAUSE)"
    using len ROW_PAUSE_less by (intro clear_is_off)
  have "\<not> matrix_is_on (matrix (snd (process_cs2 code d))) (ROW PAUSE) (COL PAUSE)"
    if "\<not> completes_pause (state d) code"
    using that off mk br cl st F7_not_PAUSE PRINT_SCREEN_not_PAUSE
      ucast_low_not_pause [of code] ucast_e0_not_pause [of code]
    unfolding process_cs2_def Let_def e_def [symmetric]
    by (cases "state d")
      (simp_all add: completes_pause_def emit_make_def emit_break_def clear_all_def)
  moreover have "pseudo_break e = e"
    using off by (rule pseudo_break_id)
  then have "process_cs2 code d = process_cs2 code e"
    by (simp add: process_cs2_def e_def [symmetric])
  ultimately show ?thesis
    using off by (simp add: e_def process_cs2_def)
qed

text \<open>
  The theorem at a matrix with Pause and the key 0x1C held, in the state \<open>F0\<close>, at the byte
  0x1C: the call releases both.
\<close>

theorem pause_pseudo_break_witness:
  "matrix (snd (process_cs2 0x1C
     \<lparr>matrix = (replicate 32 0)[3 := 0x10, 31 := 0x40], state = F0, calls = []\<rparr>))
     ! 31 AND 0x40 = 0 \<and>
   process_cs2 (- 1) \<lparr>matrix = (replicate 32 0)[3 := 0x10, 31 := 0x40], state = F0, calls = []\<rparr>
     = (0, \<lparr>matrix = (replicate 32 0)[3 := 0x10, 31 := 0], state = F0,
            calls = [MatrixBreak PAUSE]\<rparr>)"
proof -
  let ?d = "\<lparr>matrix = (replicate 32 0)[3 := 0x10, 31 := 0x40], state = F0, calls = []\<rparr>"
  have len: "length (matrix ?d) = MATRIX_ROWS"
    by (simp add: MATRIX_ROWS_def)
  have other: "\<not> completes_pause (state ?d) 0x1C"
    by (simp add: completes_pause_def)
  have "\<not> matrix_is_on (matrix (snd (process_cs2 0x1C ?d))) (ROW PAUSE) (COL PAUSE)"
    and "process_cs2 (- 1) ?d = (0, pseudo_break ?d)"
    using pause_pseudo_break [OF len, of "0x1C"] other by blast+
  then show ?thesis
    by (simp add: matrix_is_on_def ROW_def COL_def PAUSE_def pseudo_break_def emit_break_def
          matrix_break_def)
qed

subsection \<open>Unexpected bytes\<close>

text \<open>
  On a matrix of \<open>MATRIX_ROWS\<close> rows the pseudo break is idempotent and the error branch
  leaves the all-zero matrix.
\<close>

lemma pseudo_break_idem:
  "length (matrix d) = MATRIX_ROWS \<Longrightarrow> pseudo_break (pseudo_break d) = pseudo_break d"
  by (rule pseudo_break_id) (rule pseudo_break_off)

lemma clear_all_eq:
  "length (matrix d) = MATRIX_ROWS \<Longrightarrow>
     clear_all msg d = d\<lparr>matrix := replicate MATRIX_ROWS 0,
                          calls := calls d @ [MatrixClear, ClearKeyboard, Xprintf msg]\<rparr>"
  by (simp add: clear_all_def matrix_clear_eq)

text \<open>
  Claim C1, as amended. A byte that the state does not expect returns the decoder to
  \<open>INIT\<close>. In the states \<open>INIT\<close>, \<open>F0\<close>, \<open>E0\<close> and \<open>E0_F0\<close> it also clears the whole matrix, calls
  the host's \<open>clear_keyboard\<close> and prints a message. In the states of the two Pause
  sequences it does nothing else: the matrix and the calls are those left by the pseudo
  break at the head of the call.
\<close>

theorem unexpected_byte:
  assumes "length (matrix d) = MATRIX_ROWS" "code \<noteq> - 1" "\<not> spec_expected (state d) code"
  shows "(\<not> pause_state (state d) \<longrightarrow>
            matrix (snd (process_cs2 code d)) = replicate MATRIX_ROWS 0 \<and>
            state (snd (process_cs2 code d)) = INIT \<and>
            (\<exists>msg. calls (snd (process_cs2 code d)) =
               calls (pseudo_break d) @ [MatrixClear, ClearKeyboard, Xprintf msg])) \<and>
         (pause_state (state d) \<longrightarrow> snd (process_cs2 code d) = (pseudo_break d)\<lparr>state := INIT\<rparr>)"
proof -
  define e where "e = pseudo_break d"
  have len: "length (matrix e) = MATRIX_ROWS" and st: "state e = state d"
    using assms(1) by (simp_all add: e_def)
  show ?thesis
    using assms(2,3) st
    unfolding process_cs2_def Let_def e_def [symmetric]
    by (cases "state d") (simp_all add: pause_state_def clear_all_eq [OF len])
qed

text \<open>
  The theorem at the byte 0x85 in the state \<open>INIT\<close> and at the byte 0x1C in the state \<open>E1\<close>,
  both with the key 0x1C held.
\<close>

theorem unexpected_byte_witness:
  "matrix (snd (process_cs2 0x85 \<lparr>matrix = (replicate 32 0)[3 := 0x10], state = INIT, calls = []\<rparr>))
     = replicate 32 0 \<and>
   snd (process_cs2 0x1C \<lparr>matrix = (replicate 32 0)[3 := 0x10], state = E1, calls = []\<rparr>)
     = \<lparr>matrix = (replicate 32 0)[3 := 0x10], state = INIT, calls = []\<rparr>"
  using unexpected_byte [of "\<lparr>matrix = (replicate 32 0)[3 := 0x10], state = INIT, calls = []\<rparr>" "0x85"]
        unexpected_byte [of "\<lparr>matrix = (replicate 32 0)[3 := 0x10], state = E1, calls = []\<rparr>" "0x1C"]
  by (simp add: MATRIX_ROWS_def pause_state_def pseudo_break_def matrix_is_on_def ROW_def COL_def
        PAUSE_def process_cs2_def clear_all_def)

text \<open>
  Claim C1 as stated fails in the Pause states: in the state \<open>E1\<close> with the key 0x1C held, the
  byte 0x1C is not the expected 0x14, yet the matrix is not cleared and \<open>clear_keyboard\<close> is
  not called.
\<close>

theorem pause_state_mismatch_counterexample:
  "\<not> spec_expected E1 0x1C \<and> (0x1C :: 16 word) \<noteq> - 1 \<and>
   matrix (snd (process_cs2 0x1C \<lparr>matrix = (replicate 32 0)[3 := 0x10], state = E1, calls = []\<rparr>))
     \<noteq> replicate 32 0 \<and>
   ClearKeyboard \<notin> set (calls (snd (process_cs2 0x1C
     \<lparr>matrix = (replicate 32 0)[3 := 0x10], state = E1, calls = []\<rparr>)))"
  by code_simp

subsection \<open>Shadow shifts\<close>

text \<open>
  Claim C8, as amended. Fed to the decoder in the state \<open>INIT\<close>, each of the sequences E0 12,
  E0 59, E0 F0 12 and E0 F0 59 returns the decoder to \<open>INIT\<close> and leaves exactly the decoder
  that the pseudo break of the first call leaves: the matrix is the one before with the
  Pause bit cleared. When Pause is not on beforehand, the matrix is unchanged and no call
  is made at all, neither a make nor a break.
\<close>

theorem shadow_shift_ignored:
  assumes "length (matrix d) = MATRIX_ROWS" "state d = INIT" "cs \<in> shadow_shifts"
  shows "feed cs d = pseudo_break d \<and>
         state (feed cs d) = INIT \<and>
         matrix (feed cs d) = matrix_break (matrix d) PAUSE \<and>
         (\<not> matrix_is_on (matrix d) (ROW PAUSE) (COL PAUSE) \<longrightarrow> feed cs d = d)"
proof -
  define e where "e = pseudo_break d"
  have idem: "pseudo_break e = e"
    using assms(1) by (simp add: e_def pseudo_break_idem)
  have st: "state e = INIT"
    using assms(2) by (simp add: e_def)
  have off: "\<not> matrix_is_on (matrix e) (ROW PAUSE) (COL PAUSE)"
    using assms(1) by (simp add: e_def pseudo_break_off)
  have idem': "pseudo_break (e\<lparr>state := s\<rparr>) = e\<lparr>state := s\<rparr>" for s
    using off by (simp add: pseudo_break_def)
  have e_init: "e\<lparr>state := INIT\<rparr> = e"
    using st by simp
  have s1: "snd (process_cs2 0xE0 d) = e\<lparr>state := E0\<rparr>"
    using st by (simp add: process_cs2_def Let_def e_def [symmetric])
  have s2: "snd (process_cs2 c (e\<lparr>state := E0\<rparr>)) = e" if "c = 0x12 \<or> c = 0x59" for c
    using that by (auto simp: process_cs2_def Let_def idem' e_init)
  have s3: "snd (process_cs2 0xF0 (e\<lparr>state := E0\<rparr>)) = e\<lparr>state := E0_F0\<rparr>"
    by (simp add: process_cs2_def Let_def idem')
  have s4: "snd (process_cs2 c (e\<lparr>state := E0_F0\<rparr>)) = e" if "c = 0x12 \<or> c = 0x59" for c
    using that by (auto simp: process_cs2_def Let_def idem' e_init)
  have "cs = [0xE0, 0x12] \<or> cs = [0xE0, 0x59] \<or> cs = [0xE0, 0xF0, 0x12] \<or> cs = [0xE0, 0xF0, 0x59]"
    using assms(3) by (simp add: shadow_shifts_def)
  then have "feed cs d = e"
    by (elim disjE) (simp_all add: s1 s2 s3 s4)
  then show ?thesis
    using st by (auto simp: e_def pseudo_break_matrix pseudo_break_id)
qed

text \<open>
  The theorem at the sequence E0 F0 12 with the key 0x1C held.
\<close>

theorem shadow_shift_ignored_witness:
  "feed [0xE0, 0xF0, 0x12] \<lparr>matrix = (replicate 32 0)[3 := 0x10], state = INIT, calls = []\<rparr>
     = \<lparr>matrix = (replicate 32 0)[3 := 0x10], state = INIT, calls = []\<rparr>"
  using shadow_shift_ignored [of "\<lparr>matrix = (replicate 32 0)[3 := 0x10], state = INIT, calls = []\<rparr>"
          "[0xE0, 0xF0, 0x12]"]
  by (simp add: MATRIX_ROWS_def shadow_shifts_def matrix_is_on_def ROW_def COL_def PAUSE_def
        pseudo_break_def)

text \<open>
  Claim C8 as stated fails when Pause is on beforehand: the sequence E0 12 changes the
  matrix, because the first call breaks Pause.
\<close>

theorem shadow_shift_pause_counterexample:
  "matrix (feed [0xE0, 0x12] \<lparr>matrix = (replicate 32 0)[31 := 0x40], state = INIT, calls = []\<rparr>)
     \<noteq> (replicate 32 0)[31 := 0x40] \<and>
   calls (feed [0xE0, 0x12] \<lparr>matrix = (replicate 32 0)[31 := 0x40], state = INIT, calls = []\<rparr>)
     = [MatrixBreak PAUSE]"
  by code_simp

subsection \<open>Classification of the keyboard identifier\<close>

text \<open>
  Masking a 16-bit identifier with 0xFF00 and comparing with \<open>h << 8\<close> compares its high byte
  with \<open>h\<close>.
\<close>

lemma high_part_eq:
  fixes w h :: "16 word"
  assumes "h < 2 ^ (16 - k)" "k \<le> 16"
  shows "w AND NOT (mask k) = push_bit k h \<longleftrightarrow> drop_bit k w = h"
proof
  assume eq: "w AND NOT (mask k) = push_bit k h"
  show "drop_bit k w = h"
  proof (rule bit_word_eqI)
    fix n
    assume n: "n < LENGTH(16)"
    have "bit (w AND NOT (mask k)) (k + n) = bit (push_bit k h) (k + n)"
      using eq by simp
    moreover have "bit h n \<longleftrightarrow> n < 16 - k \<and> bit h n"
      using assms(1) by (rule low_bits_fixed)
    ultimately show "bit (drop_bit k w) n = bit h n"
      using n by (auto simp: bit_simps dest: bit_imp_le_length)
  qed
next
  assume eq: "drop_bit k w = h"
  show "w AND NOT (mask k) = push_bit k h"
  proof (rule bit_word_eqI)
    fix n
    assume n: "n < LENGTH(16)"
    show "bit (w AND NOT (mask k)) n = bit (push_bit k h) n"
      using n by (auto simp: eq [symmetric] bit_simps)
  qed
qed

lemma high_byte_eq:
  fixes kid h :: "16 word"
  assumes "h < 0x100"
  shows "push_bit 8 h = (kid AND 0xFF00) \<longleftrightarrow> drop_bit 8 kid = h"
proof -
  have "(NOT (mask 8) :: 16 word) = 0xFF00"
    by (simp add: mask_eq_exp_minus_1)
  then show ?thesis
    using high_part_eq [of h 8 kid] assms by (auto simp del: drop_bit_eq_div push_bit_eq_mult)
qed


text \<open>
  Claim C5. The classification in the \<open>READ_ID\<close> case maps every 16-bit identifier to a
  family as follows: high byte 0xAB gives AT; high byte 0xBF gives Terminal; 0x0000 gives
  AT; 0xFFFF gives XT; 0xFFFE gives AT; 0x00FF gives none; every other identifier gives AT.
  The protocol is XT exactly when the family is XT and AT otherwise. Whenever
  \<open>read_keyboard_id\<close> returns an identifier, the \<open>READ_ID\<close> step returns too: it stores that
  identifier, the family of that identifier and the protocol of that family, keeps the
  port as \<open>read_keyboard_id\<close> left it and moves on to \<open>LED_SET\<close>. The step has no result only
  when \<open>read_keyboard_id\<close> has none, and whatever it returns was read by
  \<open>read_keyboard_id\<close>.
\<close>

theorem read_id_classification:
  "(drop_bit 8 kid = 0xAB \<longrightarrow> kind_of_id kid = PC_AT) \<and>
   (drop_bit 8 kid = 0xBF \<longrightarrow> kind_of_id kid = PC_TERMINAL) \<and>
   kind_of_id 0x0000 = PC_AT \<and>
   kind_of_id 0xFFFF = PC_XT \<and>
   kind_of_id 0xFFFE = PC_AT \<and>
   kind_of_id 0x00FF = NONE \<and>
   (drop_bit 8 kid \<noteq> 0xAB \<and> drop_bit 8 kid \<noteq> 0xBF \<and>
    kid \<noteq> 0x0000 \<and> kid \<noteq> 0xFFFF \<and> kid \<noteq> 0xFFFE \<and> kid \<noteq> 0x00FF \<longrightarrow> kind_of_id kid = PC_AT) \<and>
   (protocol_of_kind k = IBMPC_PROTOCOL_XT \<longleftrightarrow> k = PC_XT) \<and>
   (k \<noteq> PC_XT \<longrightarrow> protocol_of_kind k = IBMPC_PROTOCOL_AT) \<and>
   (read_keyboard_id (port kb) = Some (rid, p) \<longrightarrow>
      map_option
        (\<lambda>k. (port k, keyboard_id k, keyboard_kind k, ibmpc_protocol k, scan_state k))
        (matrix_scan_READ_ID err kb)
      = Some (p, rid, kind_of_id rid, protocol_of_kind (kind_of_id rid), LED_SET)) \<and>
   (matrix_scan_READ_ID err kb = None \<longleftrightarrow> read_keyboard_id (port kb) = None) \<and>
   (matrix_scan_READ_ID err kb = Some kb' \<longrightarrow>
      keyboard_kind kb' = kind_of_id (keyboard_id kb') \<and>
      ibmpc_protocol kb' = protocol_of_kind (keyboard_kind kb') \<and>
      (\<exists>p. read_keyboard_id (port kb) = Some (keyboard_id kb', p)))"
proof -
  have ab: "0xAB00 = (kid AND 0xFF00) \<longleftrightarrow> drop_bit 8 kid = 0xAB"
    using high_byte_eq [of "0xAB" kid] by simp
  have bf: "0xBF00 = (kid AND 0xFF00) \<longleftrightarrow> drop_bit 8 kid = 0xBF"
    using high_byte_eq [of "0xBF" kid] by simp
  have kinds:
    "(drop_bit 8 kid = 0xAB \<longrightarrow> kind_of_id kid = PC_AT) \<and>
     (drop_bit 8 kid = 0xBF \<longrightarrow> kind_of_id kid = PC_TERMINAL) \<and>
     (drop_bit 8 kid \<noteq> 0xAB \<and> drop_bit 8 kid \<noteq> 0xBF \<and>
      kid \<noteq> 0x0000 \<and> kid \<noteq> 0xFFFF \<and> kid \<noteq> 0xFFFE \<and> kid \<noteq> 0x00FF \<longrightarrow> kind_of_id kid = PC_AT)"
    unfolding kind_of_id_def ab bf by (simp del: drop_bit_eq_div)
  have fixed:
    "kind_of_id 0x0000 = PC_AT \<and> kind_of_id 0xFFFF = PC_XT \<and> kind_of_id 0xFFFE = PC_AT \<and>
     kind_of_id 0x00FF = NONE"
    by (simp add: kind_of_id_def)
  have proto:
    "(protocol_of_kind k = IBMPC_PROTOCOL_XT \<longleftrightarrow> k = PC_XT) \<and>
     (k \<noteq> PC_XT \<longrightarrow> protocol_of_kind k = IBMPC_PROTOCOL_AT)"
    by (simp add: protocol_of_kind_def)
  have step:
    "matrix_scan_READ_ID err kb = Some kb' \<longrightarrow>
      keyboard_kind kb' = kind_of_id (keyboard_id kb') \<and>
      ibmpc_protocol kb' = protocol_of_kind (keyboard_kind kb') \<and>
      (\<exists>p. read_keyboard_id (port kb) = Some (keyboard_id kb', p))"
    by (auto simp: matrix_scan_READ_ID_def Let_def split: bind_splits)
  have total:
    "read_keyboard_id (port kb) = Some (rid, p) \<longrightarrow>
      map_option
        (\<lambda>k. (port k, keyboard_id k, keyboard_kind k, ibmpc_protocol k, scan_state k))
        (matrix_scan_READ_ID err kb)
      = Some (p, rid, kind_of_id rid, protocol_of_kind (kind_of_id rid), LED_SET)"
    by (simp add: matrix_scan_READ_ID_def Let_def)
  have none: "matrix_scan_READ_ID err kb = None \<longleftrightarrow> read_keyboard_id (port kb) = None"
    by (simp add: matrix_scan_READ_ID_def Let_def split: bind_splits)
  from kinds fixed proto total none step show ?thesis
    by (simp del: drop_bit_eq_div)
qed

text \<open>
  The theorem at the identifiers 0xAB83, 0xBFBF and 0x1234, at the family Terminal, and at
  the \<open>READ_ID\<close> step on a keyboard that answers AB 83 and on one that does not acknowledge
  0xF2.
\<close>

theorem read_id_classification_witness:
  "kind_of_id 0xAB83 = PC_AT \<and> kind_of_id 0xBFBF = PC_TERMINAL \<and> kind_of_id 0x1234 = PC_AT \<and>
   protocol_of_kind PC_TERMINAL = IBMPC_PROTOCOL_AT \<and>
   map_option (\<lambda>k. (keyboard_id k, keyboard_kind k, ibmpc_protocol k, scan_state k))
     (matrix_scan_READ_ID 0
       \<lparr>port = \<lparr>send_rets = [0xFA, 0xFA, 0xFA], recvs = [0xAB, 0x83], elapsed = [], sent = []\<rparr>,
        ibmpc_error = 0, ibmpc_protocol = IBMPC_PROTOCOL_XT, keyboard_kind = NONE,
        keyboard_id = 0, scan_state = READ_ID, prints = []\<rparr>)
   = Some (0xAB83, PC_AT, IBMPC_PROTOCOL_AT, LED_SET) \<and>
   map_option (\<lambda>k. (keyboard_id k, keyboard_kind k, ibmpc_protocol k, scan_state k))
     (matrix_scan_READ_ID 0
       \<lparr>port = \<lparr>send_rets = [0xFA, - 1], recvs = [], elapsed = [], sent = []\<rparr>,
        ibmpc_error = 0, ibmpc_protocol = IBMPC_PROTOCOL_AT, keyboard_kind = NONE,
        keyboard_id = 0, scan_state = READ_ID, prints = []\<rparr>)
   = Some (0xFFFF, PC_XT, IBMPC_PROTOCOL_XT, LED_SET)"
proof -
  let ?kb = "\<lparr>port = \<lparr>send_rets = [0xFA, 0xFA, 0xFA], recvs = [0xAB, 0x83], elapsed = [], sent = []\<rparr>,
        ibmpc_error = 0, ibmpc_protocol = IBMPC_PROTOCOL_XT, keyboard_kind = NONE,
        keyboard_id = 0, scan_state = READ_ID, prints = []\<rparr>"
  let ?p = "\<lparr>send_rets = [], recvs = [], elapsed = [], sent = [0xF5, 0xF2, 0xF4]\<rparr>"
  let ?xt = "\<lparr>port = \<lparr>send_rets = [0xFA, - 1], recvs = [], elapsed = [], sent = []\<rparr>,
        ibmpc_error = 0, ibmpc_protocol = IBMPC_PROTOCOL_AT, keyboard_kind = NONE,
        keyboard_id = 0, scan_state = READ_ID, prints = []\<rparr>"
  let ?q = "\<lparr>send_rets = [], recvs = [], elapsed = [], sent = [0xF5, 0xF2]\<rparr>"
  have id: "read_keyboard_id (port ?kb) = Some (0xAB83, ?p)"
    by (simp add: read_keyboard_id_def ibmpc_host_send_def read_wait_def)
  have idx: "read_keyboard_id (port ?xt) = Some (0xFFFF, ?q)"
    by (simp add: read_keyboard_id_def ibmpc_host_send_def)
  have a: "drop_bit 8 (0xAB83 :: 16 word) = 0xAB" and b: "drop_bit 8 (0xBFBF :: 16 word) = 0xBF"
    and c: "drop_bit 8 (0x1234 :: 16 word) = 0x12"
    by simp_all
  have k1: "kind_of_id 0xAB83 = PC_AT"
    using read_id_classification [where kid = "0xAB83"] a by blast
  have k2: "kind_of_id 0xBFBF = PC_TERMINAL"
    using read_id_classification [where kid = "0xBFBF"] b by blast
  have k3: "kind_of_id 0x1234 = PC_AT"
    using read_id_classification [where kid = "0x1234"] c by simp
  have k4: "kind_of_id 0xFFFF = PC_XT"
    using read_id_classification [where kid = 0] by blast
  have p: "protocol_of_kind PC_TERMINAL = IBMPC_PROTOCOL_AT"
    "protocol_of_kind PC_AT = IBMPC_PROTOCOL_AT" "protocol_of_kind PC_XT = IBMPC_PROTOCOL_XT"
    using read_id_classification [where k = PC_TERMINAL] read_id_classification [where k = PC_AT]
      read_id_classification [where k = PC_XT]
    by simp_all
  have s1: "map_option
        (\<lambda>k. (port k, keyboard_id k, keyboard_kind k, ibmpc_protocol k, scan_state k))
        (matrix_scan_READ_ID 0 ?kb)
      = Some (?p, 0xAB83, kind_of_id 0xAB83, protocol_of_kind (kind_of_id 0xAB83), LED_SET)"
    using read_id_classification [where kb = ?kb and rid = "0xAB83" and p = ?p and err = 0] id
    by blast
  have s2: "map_option
        (\<lambda>k. (port k, keyboard_id k, keyboard_kind k, ibmpc_protocol k, scan_state k))
        (matrix_scan_READ_ID 0 ?xt)
      = Some (?q, 0xFFFF, kind_of_id 0xFFFF, protocol_of_kind (kind_of_id 0xFFFF), LED_SET)"
    using read_id_classification [where kb = ?xt and rid = "0xFFFF" and p = ?q and err = 0] idx
    by blast
  from s1 obtain kb' where r1: "matrix_scan_READ_ID 0 ?kb = Some kb'"
    and "keyboard_id kb' = 0xAB83" "keyboard_kind kb' = PC_AT"
    "ibmpc_protocol kb' = IBMPC_PROTOCOL_AT" "scan_state kb' = LED_SET"
    unfolding k1 p by (cases "matrix_scan_READ_ID 0 ?kb") auto
  moreover from s2 obtain xt' where r2: "matrix_scan_READ_ID 0 ?xt = Some xt'"
    and "keyboard_id xt' = 0xFFFF" "keyboard_kind xt' = PC_XT"
    "ibmpc_protocol xt' = IBMPC_PROTOCOL_XT" "scan_state xt' = LED_SET"
    unfolding k4 p by (cases "matrix_scan_READ_ID 0 ?xt") auto
  ultimately show ?thesis
    using k1 k2 k3 p by simp
qed

subsection \<open>Reading the identifier\<close>

text \<open>
  \<open>read_wait\<close> skips empty polls while the timer reads less than the bound; it returns the
  first byte received, or \<open>-1\<close> at the first empty poll at which the bound is reached.
\<close>

lemma read_wait_loop_byte:
  assumes "length ts = n" "\<forall>t \<in> set ts. t < w" "b \<noteq> - 1"
  shows "read_wait_loop w (replicate n (- 1) @ b # cs) (ts @ ts') = Some (b, cs, ts')"
  using assms
proof (induction n arbitrary: ts)
  case 0
  then show ?case by simp
next
  case (Suc n)
  then obtain t rest where ts: "ts = t # rest"
    by (cases ts) simp_all
  with Suc show ?case by simp
qed

lemma read_wait_loop_timeout:
  assumes "length ts = n" "\<forall>t \<in> set ts. t < w" "\<not> t < w"
  shows "read_wait_loop w (replicate n (- 1) @ (- 1) # cs) (ts @ t # ts') = Some (- 1, cs, ts')"
  using assms
proof (induction n arbitrary: ts)
  case 0
  then show ?case by simp
next
  case (Suc n)
  then obtain u rest where ts: "ts = u # rest"
    by (cases ts) simp_all
  with Suc show ?case by simp
qed

text \<open>
  A byte is not the empty value, and masking it with 0xFF keeps it.
\<close>

lemma byte_not_empty: "(b :: 16 word) \<le> 0xFF \<Longrightarrow> b \<noteq> - 1"
  by (auto simp: word_le_nat_alt unsigned_minus_1_eq_mask mask_eq_exp_minus_1)

lemma byte_and_FF: "(b :: 16 word) \<le> 0xFF \<Longrightarrow> b AND 0xFF = b"
proof -
  assume "b \<le> 0xFF"
  then have "b < 2 ^ 8"
    by (simp add: word_le_nat_alt word_less_nat_alt)
  then have "b AND mask 8 = b"
    by (rule less_mask_eq)
  then show ?thesis
    by (simp add: mask_eq_exp_minus_1)
qed

text \<open>
  Claim C9. When the keyboard acknowledges 0xF2 with 0xFA and sends a first identifier
  byte \<open>b\<close>, but the read of the second byte times out (every poll is empty until the timer
  reads 1000 ms or more), \<open>read_keyboard_id\<close> returns \<open>(b << 8) | 0xFF\<close>, having sent 0xF5, 0xF2
  and 0xF4. For \<open>b\<close> = 0xAB that is 0xABFF, which is classified as AT.
\<close>

theorem second_id_byte_timeout:
  assumes "send_rets p = r1 # 0xFA # r3 # srest"
    and "recvs p = replicate n1 (- 1) @ b # replicate n2 (- 1) @ (- 1) # rrest"
    and "elapsed p = ts1 @ ts2 @ t # trest"
    and "length ts1 = n1" "length ts2 = n2"
    and "\<forall>x \<in> set ts1. x < 1000" "\<forall>x \<in> set ts2. x < 1000" "\<not> t < 1000"
    and "b \<le> 0xFF"
  shows "read_keyboard_id p =
           Some (push_bit 8 b OR 0xFF,
                 p\<lparr>send_rets := srest, recvs := rrest, elapsed := trest,
                   sent := sent p @ [0xF5, 0xF2, 0xF4]\<rparr>) \<and>
         (b = 0xAB \<longrightarrow> push_bit 8 b OR 0xFF = (0xABFF :: 16 word) \<and> kind_of_id 0xABFF = PC_AT)"
proof -
  have w1: "read_wait_loop 1000 (recvs p) (elapsed p)
              = Some (b, replicate n2 (- 1) @ (- 1) # rrest, ts2 @ t # trest)"
    unfolding assms(2,3) using assms(4,6) byte_not_empty [OF assms(9)]
    by (rule read_wait_loop_byte)
  have w2: "read_wait_loop 1000 (replicate n2 (- 1) @ (- 1) # rrest) (ts2 @ t # trest)
              = Some (- 1, rrest, trest)"
    using assms(5,7,8) by (rule read_wait_loop_timeout)
  have "read_keyboard_id p =
           Some (push_bit 8 b OR 0xFF,
                 p\<lparr>send_rets := srest, recvs := rrest, elapsed := trest,
                   sent := sent p @ [0xF5, 0xF2, 0xF4]\<rparr>)"
    using byte_not_empty [OF assms(9)] byte_and_FF [OF assms(9)]
    by (simp add: read_keyboard_id_def ibmpc_host_send_def read_wait_def assms(1) w1 w2
          del: push_bit_eq_mult)
  moreover have "kind_of_id 0xABFF = PC_AT"
    by (simp add: kind_of_id_def)
  ultimately show ?thesis by simp
qed

text \<open>
  The theorem at a keyboard that answers 0xAB at once and then stays silent.
\<close>

theorem second_id_byte_timeout_witness:
  "read_keyboard_id
     \<lparr>send_rets = [0xFA, 0xFA, 0xFA], recvs = [0xAB, - 1, - 1], elapsed = [400, 1000], sent = []\<rparr>
   = Some (0xABFF, \<lparr>send_rets = [], recvs = [], elapsed = [], sent = [0xF5, 0xF2, 0xF4]\<rparr>)"
  using second_id_byte_timeout
    [of "\<lparr>send_rets = [0xFA, 0xFA, 0xFA], recvs = [0xAB, - 1, - 1], elapsed = [400, 1000], sent = []\<rparr>"
        "0xFA" "0xFA" "[]" 0 "0xAB" 1 "[]" "[]" "[400]" 1000 "[]"]
  by simp

subsection \<open>Enabling the scanning\<close>

text \<open>
  Claim C6 fails on the code. On each of the three early returns of \<open>read_keyboard_id\<close> (no
  acknowledgement, identifier 0xFFFF; a reply other than 0xFA, identifier 0xFFFE; no
  identifier byte within the bound, identifier 0x0000) the bytes sent are 0xF5 and 0xF2
  only; the \<open>READ_ID\<close> case sends nothing itself, so the scanning that 0xF5 disabled is not
  enabled again.
\<close>

theorem enable_not_sent_on_early_return:
  "read_keyboard_id \<lparr>send_rets = [0xFA, - 1], recvs = [], elapsed = [], sent = []\<rparr>
     = Some (0xFFFF, \<lparr>send_rets = [], recvs = [], elapsed = [], sent = [0xF5, 0xF2]\<rparr>) \<and>
   read_keyboard_id \<lparr>send_rets = [0xFA, 0xFE], recvs = [], elapsed = [], sent = []\<rparr>
     = Some (0xFFFE, \<lparr>send_rets = [], recvs = [], elapsed = [], sent = [0xF5, 0xF2]\<rparr>) \<and>
   read_keyboard_id \<lparr>send_rets = [0xFA, 0xFA], recvs = [- 1], elapsed = [1000], sent = []\<rparr>
     = Some (0x0000, \<lparr>send_rets = [], recvs = [], elapsed = [], sent = [0xF5, 0xF2]\<rparr>) \<and>
   map_option (\<lambda>k. (keyboard_kind k, sent (port k)))
     (matrix_scan_READ_ID 0
        \<lparr>port = \<lparr>send_rets = [0xFA, 0xFA], recvs = [- 1], elapsed = [1000], sent = []\<rparr>,
         ibmpc_error = 0, ibmpc_protocol = IBMPC_PROTOCOL_AT, keyboard_kind = NONE,
         keyboard_id = 0, scan_state = READ_ID, prints = []\<rparr>)
     = Some (PC_AT, [0xF5, 0xF2])"
  by (simp add: read_keyboard_id_def ibmpc_host_send_def read_wait_def matrix_scan_READ_ID_def
        kind_of_id_def)

subsection \<open>The action resolver\<close>

text \<open>
  For a position below 0x80 the row index of the source, \<open>(unimap_pos & 0x70) >> 4\<close>, is the
  high nibble.
\<close>

lemma row_index_low:
  fixes u :: "8 word"
  assumes "u < 0x80"
  shows "drop_bit 4 (u AND 0x70) = drop_bit 4 u"
proof (rule bit_word_eqI)
  fix n
  assume n: "n < LENGTH(8)"
  have "take_bit 7 u = u"
    using assms by (simp add: take_bit_eq_mask less_mask_eq)
  then have u: "bit u (4 + n) \<longleftrightarrow> 4 + n < 7 \<and> bit u (4 + n)"
    by (metis bit_take_bit_iff)
  have e: "push_bit 4 (mask 3) = (0x70 :: 8 word)"
    by (simp add: mask_eq_exp_minus_1)
  have "bit (push_bit 4 (mask 3 :: 8 word)) (4 + n) \<longleftrightarrow> n < 3"
    unfolding bit_push_bit_iff bit_mask_iff using n by auto
  then have m: "bit (0x70 :: 8 word) (4 + n) \<longleftrightarrow> n < 3"
    unfolding e .
  have "bit (u AND 0x70) (4 + n) = bit u (4 + n)"
    unfolding bit_and_iff m using u by auto
  then show "bit (drop_bit 4 (u AND 0x70)) n = bit (drop_bit 4 u) n"
    unfolding bit_drop_bit_eq comp_def .
qed

text \<open>
  Claim C2. For every layer and every key position whose entries in the three translation
  tables are universal key positions: \<open>action_for_key\<close> returns \<open>ACTION_NO\<close> when the family is
  unset (and for the family \<open>OTHER\<close>, which has no table); otherwise it looks the position
  up in the table of the family (\<open>unimap_cs1\<close> for XT, \<open>unimap_cs2\<close> for AT, \<open>unimap_cs3\<close> for
  Terminal), returns \<open>ACTION_NO\<close> when it is the sentinel and otherwise the entry of the
  layered action table at \<open>(layer, ukp >> 4, ukp & 0x0F)\<close>.
\<close>

theorem action_for_key_resolves:
  assumes "spec_ukp t (unimap_cs1 t (unat (row key)) (unat (col key)))"
    and "spec_ukp t (unimap_cs2 t (unat (row key)) (unat (col key)))"
    and "spec_ukp t (unimap_cs3 t (unat (row key)) (unat (col key)))"
  shows "action_for_key t NONE layer key = ACTION_NO t \<and>
         action_for_key t OTHER layer key = ACTION_NO t \<and>
         action_for_key t PC_XT layer key
           = spec_resolve t layer (unimap_cs1 t (unat (row key)) (unat (col key))) \<and>
         action_for_key t PC_AT layer key
           = spec_resolve t layer (unimap_cs2 t (unat (row key)) (unat (col key))) \<and>
         action_for_key t PC_TERMINAL layer key
           = spec_resolve t layer (unimap_cs3 t (unat (row key)) (unat (col key)))"
  using assms
  by (auto simp: action_for_key_def spec_resolve_def spec_ukp_def row_index_low
        simp del: drop_bit_eq_div drop_bit_and)

text \<open>
  The theorem at a table set in which the key at row 3, column 4 maps to position 0x4A
  under Set 2 and to nothing under Set 3.
\<close>

theorem action_for_key_resolves_witness:
  "action_for_key
     \<lparr>unimap_cs1 = \<lambda>r c. 0x04,
      unimap_cs2 = \<lambda>r c. if r = 3 \<and> c = 4 then 0x4A else 0x80,
      unimap_cs3 = \<lambda>r c. 0x80,
      actionmaps = \<lambda>l r c. of_nat (256 * l + 16 * r + c),
      UNIMAP_NO = 0x80, ACTION_NO = 0\<rparr> PC_AT 1 \<lparr>col = 4, row = 3\<rparr> = 0x14A \<and>
   action_for_key
     \<lparr>unimap_cs1 = \<lambda>r c. 0x04,
      unimap_cs2 = \<lambda>r c. if r = 3 \<and> c = 4 then 0x4A else 0x80,
      unimap_cs3 = \<lambda>r c. 0x80,
      actionmaps = \<lambda>l r c. of_nat (256 * l + 16 * r + c),
      UNIMAP_NO = 0x80, ACTION_NO = 0\<rparr> PC_TERMINAL 1 \<lparr>col = 4, row = 3\<rparr> = 0"
  using action_for_key_resolves
    [of "\<lparr>unimap_cs1 = \<lambda>r c. 0x04,
          unimap_cs2 = \<lambda>r c. if r = 3 \<and> c = 4 then 0x4A else 0x80,
          unimap_cs3 = \<lambda>r c. 0x80,
          actionmaps = \<lambda>l r c. of_nat (256 * l + 16 * r + c),
          UNIMAP_NO = 0x80, ACTION_NO = 0\<rparr>" "\<lparr>col = 4, row = 3\<rparr>" 1]
  by (simp add: spec_ukp_def spec_resolve_def)

subsection \<open>The specification's scenarios\<close>

text \<open>
  The concrete scenarios of the specification, run on the model from the state \<open>INIT\<close> with
  an empty matrix: a plain key, an E0-prefixed key, PrintScreen behind a shadow shift, and
  the two Pause sequences with the release at the next call.
\<close>

lemma scenario_plain_key:
  "matrix (feed [0x1C] \<lparr>matrix = replicate 32 0, state = INIT, calls = []\<rparr>)
     = (replicate 32 0)[3 := 0x10] \<and>
   matrix (feed [0x1C, 0xF0, 0x1C] \<lparr>matrix = replicate 32 0, state = INIT, calls = []\<rparr>)
     = replicate 32 0"
  by code_simp

lemma scenario_up_arrow:
  "matrix (feed [0xE0, 0x75] \<lparr>matrix = replicate 32 0, state = INIT, calls = []\<rparr>)
     = (replicate 32 0)[0x1E := 0x20] \<and>
   matrix (feed [0xE0, 0x75, 0xE0, 0xF0, 0x75] \<lparr>matrix = replicate 32 0, state = INIT, calls = []\<rparr>)
     = replicate 32 0"
  by code_simp

lemma scenario_print_screen:
  "matrix (feed [0xE0, 0x12, 0xE0, 0x7C] \<lparr>matrix = replicate 32 0, state = INIT, calls = []\<rparr>)
     = (replicate 32 0)[0x1F := 0x10] \<and>
   matrix (feed [0x84] \<lparr>matrix = replicate 32 0, state = INIT, calls = []\<rparr>)
     = (replicate 32 0)[0x1F := 0x10]"
  by code_simp

lemma scenario_pause:
  "matrix (feed [0xE1, 0x14, 0x77, 0xE1, 0xF0, 0x14, 0xF0, 0x77]
     \<lparr>matrix = replicate 32 0, state = INIT, calls = []\<rparr>) = (replicate 32 0)[0x1F := 0x40] \<and>
   matrix (feed [0xE1, 0x14, 0x77, 0xE1, 0xF0, 0x14, 0xF0, 0x77, - 1]
     \<lparr>matrix = replicate 32 0, state = INIT, calls = []\<rparr>) = replicate 32 0 \<and>
   matrix (feed [0xE0, 0x7E, 0xE0, 0xF0, 0x7E]
     \<lparr>matrix = replicate 32 0, state = INIT, calls = []\<rparr>) = (replicate 32 0)[0x1F := 0x40]"
  by code_simp

end
